theory Spec2Isabelle
  imports Complex_Main "HOL-Library.Word"
begin

section \<open>The fragment shader (the GLSL part of main.js, lines 211--285)\<close>

text \<open>
  The shader computes on \<open>highp float\<close>. The embedding reads every float as a real
  number and every operator as the exact operation, so rounding is left out; the bytes of
  the spectrum texture are \<open>8 word\<close>, normalised by the sampler to \<open>unat b / 255\<close>.
\<close>

type_synonym byte = "8 word"

type_synonym vec2 = "real \<times> real"

type_synonym vec3 = "real \<times> real \<times> real"

record vec4 =
  vec_x :: real
  vec_y :: real
  vec_z :: real
  vec_w :: real

text \<open>The uniforms of the program, with the texture the sampler \<open>uSpectrum\<close> reads.\<close>

record uniforms =
  uSpectrum :: "byte list"
  uBins :: real
  uAspect :: vec2

subsection \<open>GLSL built-ins\<close>

text \<open>\<open>#define PI 3.14159265\<close>: the shader's constant, not the number \<open>pi\<close>.\<close>

definition PI :: real where
  "PI = 314159265 / 100000000"

definition clamp :: "real \<Rightarrow> real \<Rightarrow> real \<Rightarrow> real" where
  "clamp x minVal maxVal = min (max x minVal) maxVal"

definition mix :: "real \<Rightarrow> real \<Rightarrow> real \<Rightarrow> real" where
  "mix x y a = x * (1 - a) + y * a"

definition fract :: "real \<Rightarrow> real" where
  "fract x = x - of_int \<lfloor>x\<rfloor>"

text \<open>
  \<open>smoothstep\<close> by the formula of the GLSL specification. The shader calls it with
  \<open>edge0 > edge1\<close> (a falling edge); the formula is the same there.
\<close>

definition smoothstep :: "real \<Rightarrow> real \<Rightarrow> real \<Rightarrow> real" where
  "smoothstep edge0 edge1 x =
     (let t = clamp ((x - edge0) / (edge1 - edge0)) 0 1 in t * t * (3 - 2 * t))"

text \<open>\<open>pow\<close> is only called on non-negative bases here.\<close>

definition pow :: "real \<Rightarrow> real \<Rightarrow> real" where
  "pow x y = x powr y"

definition length_vec2 :: "vec2 \<Rightarrow> real" where
  "length_vec2 p = sqrt ((fst p)\<^sup>2 + (snd p)\<^sup>2)"

text \<open>Two-argument \<open>atan\<close>, with range \<open>(-pi, pi]\<close>; GLSL leaves \<open>atan(0, 0)\<close> open, here 0.\<close>

definition atan2 :: "real \<Rightarrow> real \<Rightarrow> real" where
  "atan2 y x =
     (if 0 < x then arctan (y / x)
      else if x < 0 \<and> 0 \<le> y then arctan (y / x) + pi
      else if x < 0 then arctan (y / x) - pi
      else if 0 < y then pi / 2
      else if y < 0 then - pi / 2
      else 0)"

subsection \<open>The sampler: a 1 x N R8 texture, CLAMP_TO_EDGE, LINEAR\<close>

text \<open>
  \<open>createSpectrumTexture\<close> sets both wrap modes to \<open>CLAMP_TO_EDGE\<close> and both filters
  to \<open>LINEAR\<close>. \<open>texel\<close> fetches one texel with the index clamped to the edge;
  \<open>texture_r\<close> is the red channel of \<open>texture(uSpectrum, vec2(u, v))\<close>: the linear
  filter between the two texels around \<open>u * N - 0.5\<close>. The image is one texel high, so
  both rows of the filter are row 0 and \<open>v\<close> has no effect. An empty texture reads 0.
\<close>

definition r8_value :: "byte \<Rightarrow> real" where
  "r8_value b = real (unat b) / 255"

definition texel :: "byte list \<Rightarrow> int \<Rightarrow> real" where
  "texel tex i =
     (if tex = [] then 0
      else r8_value (tex ! nat (min (max i 0) (int (length tex) - 1))))"

definition texture_r :: "byte list \<Rightarrow> vec2 \<Rightarrow> real" where
  "texture_r tex uv =
     (let x = fst uv * real (length tex) - 1 / 2;
          i0 = \<lfloor>x\<rfloor>;
          a = fract x
      in (1 - a) * texel tex i0 + a * texel tex (i0 + 1))"

subsection \<open>exp01, sampleSpectrum, rangeRings\<close>

definition exp01 :: "real \<Rightarrow> real \<Rightarrow> real" where
  "exp01 f01 k = (exp (f01 * k) - 1) / (exp k - 1)"

text \<open>The first statement of \<open>sampleSpectrum\<close>: its local copy of \<open>bin\<close>, clamped.\<close>

definition sampleSpectrum_bin :: "uniforms \<Rightarrow> real \<Rightarrow> real" where
  "sampleSpectrum_bin U bin = clamp bin 1 (uBins U - 1)"

text \<open>The local \<open>smoothSample\<close> as first assigned: the 1-2-1 kernel before the noise gate.\<close>

definition smoothSample :: "uniforms \<Rightarrow> real \<Rightarrow> real" where
  "smoothSample U bin0 =
     (let bin = sampleSpectrum_bin U bin0;
          uC = (bin + 1 / 2) / uBins U;
          uL = (bin - 1 + 1 / 2) / uBins U;
          uR = (bin + 1 + 1 / 2) / uBins U;
          c = texture_r (uSpectrum U) (uC, 1 / 2);
          l = texture_r (uSpectrum U) (uL, 1 / 2);
          r = texture_r (uSpectrum U) (uR, 1 / 2)
      in (l + 2 * c + r) * (1 / 4))"

definition sampleSpectrum :: "uniforms \<Rightarrow> real \<Rightarrow> real" where
  "sampleSpectrum U bin = max (smoothSample U bin - 1 / 100) 0"

text \<open>The local \<open>ring\<close> of \<open>rangeRings\<close>: the ring line before the radius fade.\<close>

definition rangeRings_ring :: "real \<Rightarrow> real \<Rightarrow> real" where
  "rangeRings_ring radius count =
     (let t = fract (radius * count) in smoothstep (2 / 100) 0 (min t (1 - t)))"

definition rangeRings :: "real \<Rightarrow> real \<Rightarrow> real" where
  "rangeRings radius count = rangeRings_ring radius count * smoothstep 1 0 radius"

subsection \<open>main\<close>

text \<open>The locals of \<open>main\<close>, one definition each, in the order of the source.\<close>

definition main_polarUV :: "uniforms \<Rightarrow> vec2 \<Rightarrow> vec2" where
  "main_polarUV U vUV =
     ((fst vUV * 2 - 1) * (fst (uAspect U) / max 1 (snd (uAspect U))), snd vUV * 2 - 1)"

definition main_angle01 :: "vec2 \<Rightarrow> real" where
  "main_angle01 polarUV =
     (let angle = atan2 (snd polarUV) (fst polarUV) - PI * (1 / 2);
          angle' = (if angle < 0 then angle + 2 * PI else angle)
      in angle' * (1 / 2) / PI)"

text \<open>\<open>bin = f01 * (uBins - 1)\<close> with \<open>f01 = exp01(angle01, k)\<close> and \<open>k = 3\<close>.\<close>

definition main_bin :: "uniforms \<Rightarrow> real \<Rightarrow> real" where
  "main_bin U angle01 = exp01 angle01 3 * (uBins U - 1)"

definition main_tilt :: "uniforms \<Rightarrow> real \<Rightarrow> real" where
  "main_tilt U bin = pow ((bin + 1) / uBins U) (1 / 2)"

text \<open>\<open>amp\<close> after \<open>amp *= mix(0.7, 2.0, tilt)\<close>.\<close>

definition main_amp :: "uniforms \<Rightarrow> real \<Rightarrow> real" where
  "main_amp U bin = sampleSpectrum U bin * mix (7 / 10) 2 (main_tilt U bin)"

definition main_gain :: "uniforms \<Rightarrow> real \<Rightarrow> real" where
  "main_gain U bin = pow (main_amp U bin) (3 / 2)"

definition main_base :: vec3 where
  "main_base = (5 / 100, 8 / 100, 6 / 100)"

definition main_glow :: "uniforms \<Rightarrow> real \<Rightarrow> vec3" where
  "main_glow U bin =
     (25 / 100 * main_gain U bin, 1 * main_gain U bin, 55 / 100 * main_gain U bin)"

text \<open>
  \<open>vec4(base + glow, 1.0) + rangeRings(radius, 5.0)\<close>: adding a float to a \<open>vec4\<close>
  adds it to each of the four components.
\<close>

definition fragColor_of :: "vec3 \<Rightarrow> vec3 \<Rightarrow> real \<Rightarrow> vec4" where
  "fragColor_of base glow rings =
     (case (base, glow) of ((br, bg, bb), (gr, gg, gb)) \<Rightarrow>
        \<lparr>vec_x = br + gr + rings, vec_y = bg + gg + rings,
         vec_z = bb + gb + rings, vec_w = 1 + rings\<rparr>)"

text \<open>\<open>main\<close> returns \<open>None\<close> where the shader executes \<open>discard\<close>.\<close>

definition main :: "uniforms \<Rightarrow> vec2 \<Rightarrow> vec4 option" where
  "main U vUV =
     (let polarUV = main_polarUV U vUV;
          radius = length_vec2 polarUV
      in if radius > 1 then None
         else let bin = main_bin U (main_angle01 polarUV)
              in Some (fragColor_of main_base (main_glow U bin) (rangeRings radius 5)))"

section \<open>The host program (main.js, lines 1--210)\<close>

subsection \<open>Canvas and viewport\<close>

text \<open>What the browser reports when a callback runs.\<close>

record environment =
  clientWidth :: nat
  clientHeight :: nat
  devicePixelRatio :: real

text \<open>The canvas' drawing-buffer size and the viewport of the context.\<close>

record surface =
  canvas_width :: int
  canvas_height :: int
  viewport :: "int \<times> int \<times> int \<times> int"

text \<open>\<open>window.devicePixelRatio || 1\<close> takes 1 for a ratio of 0.\<close>

definition resizeCanvas :: "environment \<Rightarrow> surface \<Rightarrow> surface" where
  "resizeCanvas E c =
     (let dpr = min (if devicePixelRatio E = 0 then 1 else devicePixelRatio E) 2;
          width = \<lfloor>real (clientWidth E) * dpr\<rfloor>;
          height = \<lfloor>real (clientHeight E) * dpr\<rfloor>
      in if canvas_width c \<noteq> width \<or> canvas_height c \<noteq> height
         then c\<lparr>canvas_width := width, canvas_height := height,
                viewport := (0, 0, width, height)\<rparr>
         else c)"

subsection \<open>The audio analyzer\<close>

record analyzer =
  fftSize :: nat

definition frequencyBinCount :: "analyzer \<Rightarrow> nat" where
  "frequencyBinCount an = fftSize an div 2"

text \<open>
  \<open>getByteFrequencyData(array)\<close> of the Web Audio API overwrites the array with the
  current byte magnitudes \<open>mag\<close> of the bins; elements past the bin count are left as
  they are, bins past the array are dropped.
\<close>

definition getByteFrequencyData :: "analyzer \<Rightarrow> (nat \<Rightarrow> byte) \<Rightarrow> byte list \<Rightarrow> byte list" where
  "getByteFrequencyData an mag array =
     map (\<lambda>i. if i < frequencyBinCount an then mag i else array ! i) [0..<length array]"

datatype error = MicInitFailed

text \<open>
  \<open>initAudioAnalyzer\<close>: the awaited \<open>getUserMedia\<close> either yields the stream or
  throws; the click handler catches the exception.
\<close>

definition initAudioAnalyzer :: "bool \<Rightarrow> error + (analyzer \<times> nat \<times> byte list)" where
  "initAudioAnalyzer granted =
     (if granted
      then (let an = \<lparr>fftSize = 2048\<rparr>;
                bins = frequencyBinCount an;
                spectrum = replicate bins 0
            in Inr (an, bins, spectrum))
      else Inl MicInitFailed)"

subsection \<open>The spectrum texture\<close>

text \<open>
  \<open>createSpectrumTexture\<close> allocates a \<open>bins x 1\<close> R8 image from \<open>null\<close>, which WebGL
  fills with zeros, and leaves no texture bound.
\<close>

definition createSpectrumTexture :: "nat \<Rightarrow> byte list" where
  "createSpectrumTexture bins = replicate bins 0"

subsection \<open>Program state after the click handler\<close>

text \<open>What one \<open>drawArrays\<close> lets the fragment shader read.\<close>

record draw =
  draw_uniforms :: uniforms
  draw_viewport :: "int \<times> int \<times> int \<times> int"

record app =
  canvas :: surface
  analyzer :: analyzer
  bins :: nat
  spectrum :: "byte list"
  spectrumTexture :: "byte list"
  texture_bound :: bool
  program_uSpectrum :: int
  program_uBins :: real
  program_uAspect :: vec2
  draws :: "draw list"

text \<open>
  The click handler of \<open>init\<close>: on success the globals and the three uniforms are set,
  \<open>uAspect\<close> from the canvas size of that moment, and the first frame is requested.
\<close>

definition init_click :: "bool \<Rightarrow> surface \<Rightarrow> error + app" where
  "init_click granted c =
     (case initAudioAnalyzer granted of
        Inl e \<Rightarrow> Inl e
      | Inr (an, b, sp) \<Rightarrow>
          Inr \<lparr>canvas = c, analyzer = an, bins = b, spectrum = sp,
               spectrumTexture = createSpectrumTexture b, texture_bound = False,
               program_uSpectrum = 0, program_uBins = real b,
               program_uAspect = (real_of_int (canvas_width c), real_of_int (canvas_height c)),
               draws = []\<rparr>)"

subsection \<open>The frame loop\<close>

text \<open>
  \<open>texSubImage2D(TEXTURE_2D, 0, 0, 0, width, 1, RED, UNSIGNED_BYTE, src)\<close> with
  \<open>UNPACK_ALIGNMENT = 1\<close>: the first \<open>width\<close> bytes of \<open>src\<close> replace the first
  \<open>width\<close> texels of the bound texture. With no texture bound, a region wider than the
  image or too short a source, the call raises a GL error and writes nothing.
\<close>

definition texSubImage2D :: "nat \<Rightarrow> byte list \<Rightarrow> app \<Rightarrow> app" where
  "texSubImage2D width src s =
     (if texture_bound s \<and> width \<le> length (spectrumTexture s) \<and> width \<le> length src
      then s\<lparr>spectrumTexture := take width src @ drop width (spectrumTexture s)\<rparr>
      else s)"

text \<open>
  \<open>drawArrays\<close>: the shader runs with the uniforms of the program and, for the sampler
  on unit 0, the texture bound there (nothing bound reads as the empty texture).
\<close>

definition drawArrays :: "app \<Rightarrow> app" where
  "drawArrays s =
     s\<lparr>draws := draws s @
        [\<lparr>draw_uniforms =
            \<lparr>uSpectrum = (if program_uSpectrum s = 0 \<and> texture_bound s
                           then spectrumTexture s else []),
             uBins = program_uBins s,
             uAspect = program_uAspect s\<rparr>,
          draw_viewport = viewport (canvas s)\<rparr>]\<rparr>"

text \<open>
  One frame is run on what the browser and the analyzer give at that moment. \<open>render\<close>
  follows the statements of the source in their order: \<open>resizeCanvas()\<close>, the refresh of
  \<open>spectrum\<close>, \<open>activeTexture\<close> and \<open>bindTexture\<close> (the spectrum texture is bound to
  unit 0), \<open>texSubImage2D\<close>, and \<open>drawArrays\<close>, with no test between them. Clearing
  the colour buffer, \<open>useProgram\<close> and the vertex-array bindings change nothing the
  state records.
\<close>

record frame_input =
  frame_env :: environment
  frame_mag :: "nat \<Rightarrow> byte"

definition render :: "frame_input \<Rightarrow> app \<Rightarrow> app" where
  "render F s =
     (let s1 = s\<lparr>canvas := resizeCanvas (frame_env F) (canvas s)\<rparr>;
          s2 = s1\<lparr>spectrum := getByteFrequencyData (analyzer s1) (frame_mag F) (spectrum s1)\<rparr>;
          s3 = s2\<lparr>texture_bound := True\<rparr>;
          s4 = texSubImage2D (bins s3) (spectrum s3) s3
      in drawArrays s4)"

text \<open>\<open>requestAnimationFrame(render)\<close>: the frames run one after the other.\<close>

fun frames :: "frame_input list \<Rightarrow> app \<Rightarrow> app" where
  "frames [] s = s"
| "frames (F # Fs) s = frames Fs (render F s)"

section \<open>Concrete inputs\<close>

text \<open>
  Small uniform blocks (a four-bin texture) and frames on which the theorems below are run:
  a full-scale spectrum, a spectrum below the noise gate, and a rising one.
\<close>

definition loud4 :: uniforms where
  "loud4 = \<lparr>uSpectrum = [255, 255, 255, 255], uBins = 4, uAspect = (800, 600)\<rparr>"

definition quiet4 :: uniforms where
  "quiet4 = \<lparr>uSpectrum = [2, 2, 2, 2], uBins = 4, uAspect = (800, 600)\<rparr>"

definition ramp4 :: uniforms where
  "ramp4 = \<lparr>uSpectrum = [0, 51, 102, 255], uBins = 4, uAspect = (800, 600)\<rparr>"

definition silence :: "nat \<Rightarrow> byte" where
  "silence i = 0"

definition canvas_800x600 :: surface where
  "canvas_800x600 = \<lparr>canvas_width = 800, canvas_height = 600, viewport = (0, 0, 800, 600)\<rparr>"

text \<open>A frame in which the canvas element measures 600 x 800, and one in which it is 0 wide.\<close>

definition portrait_frame :: frame_input where
  "portrait_frame =
     \<lparr>frame_env = \<lparr>clientWidth = 600, clientHeight = 800, devicePixelRatio = 1\<rparr>,
      frame_mag = silence\<rparr>"

definition collapsed_frame :: frame_input where
  "collapsed_frame =
     \<lparr>frame_env = \<lparr>clientWidth = 0, clientHeight = 600, devicePixelRatio = 1\<rparr>,
      frame_mag = silence\<rparr>"

text \<open>The program after a successful click on an 800 x 600 canvas.\<close>

definition started :: app where
  "started = projr (init_click True canvas_800x600)"

section \<open>The angular remap\<close>

lemma exp01_zero: "exp01 0 k = 0"
  by (simp add: exp01_def)

lemma exp01_one: "k \<noteq> 0 \<Longrightarrow> exp01 1 k = 1"
  by (simp add: exp01_def)

lemma exp01_strict_mono:
  assumes "0 < k" and "x < y"
  shows "exp01 x k < exp01 y k"
proof -
  have den: "0 < exp k - 1"
    using assms(1) by simp
  have "x * k < y * k"
    using assms by simp
  then have "exp (x * k) - 1 < exp (y * k) - 1"
    by simp
  then show ?thesis
    unfolding exp01_def using den by (rule divide_strict_right_mono)
qed

text \<open>
  Claim C6. For every steepness \<open>k > 0\<close> the remap \<open>exp01\<close> sends 0 to 0 and 1 to 1
  and is strictly increasing on \<open>[0, 1]\<close>.
\<close>

theorem exp01_remap:
  assumes "0 < k"
  shows "exp01 0 k = 0 \<and> exp01 1 k = 1
    \<and> (\<forall>x y. 0 \<le> x \<and> x < y \<and> y \<le> 1 \<longrightarrow> exp01 x k < exp01 y k)"
  using assms exp01_zero exp01_one exp01_strict_mono by simp

theorem exp01_remap_witness:
  "(0::real) < 3 \<and> exp01 0 3 = 0 \<and> exp01 1 3 = 1 \<and> exp01 (1 / 4) 3 < exp01 (1 / 2) 3"
proof -
  have k: "(0::real) < 3" by simp
  show ?thesis
    using exp01_remap [OF k] by simp
qed

section \<open>The sampler at texel centres\<close>

lemma fract_of_int: "fract (of_int i) = 0"
  by (simp add: fract_def)

lemma texture_r_center:
  assumes "tex \<noteq> []"
  shows "texture_r tex ((of_int i + 1 / 2) / real (length tex), v) = texel tex i"
proof -
  have x: "(of_int i + 1 / 2) / real (length tex) * real (length tex) - 1 / 2 = of_int i"
    using assms by simp
  show ?thesis
    unfolding texture_r_def Let_def fst_conv x by (simp add: fract_of_int)
qed

lemma texel_inside:
  assumes "0 \<le> i" and "i < int (length tex)"
  shows "texel tex i = r8_value (tex ! nat i)"
  using assms by (auto simp: texel_def)

lemma texel_past_edge:
  assumes "int (length tex) - 1 \<le> i" and "tex \<noteq> []"
  shows "texel tex i = r8_value (tex ! (length tex - 1))"
proof -
  have "0 < length tex" using assms(2) by simp
  then have "min (max i 0) (int (length tex) - 1) = int (length tex) - 1"
    using assms(1) by linarith
  then show ?thesis
    using assms(2) \<open>0 < length tex\<close> by (simp add: texel_def nat_diff_distrib')
qed

lemma smoothSample_centers:
  assumes B: "uBins U = real (length (uSpectrum U))" and ne: "uSpectrum U \<noteq> []"
    and b: "sampleSpectrum_bin U bin0 = of_int i"
  shows "smoothSample U bin0 =
     (texel (uSpectrum U) (i - 1) + 2 * texel (uSpectrum U) i + texel (uSpectrum U) (i + 1)) / 4"
proof -
  have c: "texture_r (uSpectrum U) ((of_int i + 1 / 2) / uBins U, 1 / 2) = texel (uSpectrum U) i"
    unfolding B using ne by (rule texture_r_center)
  have l: "texture_r (uSpectrum U) ((of_int i - 1 + 1 / 2) / uBins U, 1 / 2) = texel (uSpectrum U) (i - 1)"
    using texture_r_center [OF ne, of "i - 1" "1 / 2"] by (simp add: B)
  have r: "texture_r (uSpectrum U) ((of_int i + 1 + 1 / 2) / uBins U, 1 / 2) = texel (uSpectrum U) (i + 1)"
    using texture_r_center [OF ne, of "i + 1" "1 / 2"] by (simp add: B)
  show ?thesis
    unfolding smoothSample_def Let_def b c l r by simp
qed

section \<open>The smoothing kernel\<close>

lemma sampleSpectrum_bin_inside:
  assumes "1 \<le> bin" and "bin \<le> uBins U - 1"
  shows "sampleSpectrum_bin U bin = bin"
  using assms by (simp add: sampleSpectrum_bin_def clamp_def)

lemma sampleSpectrum_bin_low:
  assumes "bin \<le> 1" and "2 \<le> uBins U"
  shows "sampleSpectrum_bin U bin = 1"
  using assms by (simp add: sampleSpectrum_bin_def clamp_def)

lemma sampleSpectrum_bin_range:
  assumes "2 \<le> uBins U"
  shows "1 \<le> sampleSpectrum_bin U bin \<and> sampleSpectrum_bin U bin \<le> uBins U - 1"
  using assms by (simp add: sampleSpectrum_bin_def clamp_def)

text \<open>
  Claim C4, as the code has it. For an integer bin \<open>i\<close> with \<open>1 \<le> i \<le> B - 2\<close> the three
  texture reads at \<open>(i - 1 + 0.5) / B\<close>, \<open>(i + 0.5) / B\<close> and \<open>(i + 1 + 0.5) / B\<close>
  return the texels \<open>i - 1\<close>, \<open>i\<close> and \<open>i + 1\<close> exactly, and the kernel value before the
  noise gate is their 1-2-1 average; what \<open>sampleSpectrum\<close> returns is that average
  lowered by the noise gate, \<open>max (average - 0.01) 0\<close>.
\<close>

theorem sampleSpectrum_interior_bin:
  fixes i :: nat
  assumes B: "uBins U = real (length (uSpectrum U))"
    and lo: "1 \<le> i" and hi: "i + 2 \<le> length (uSpectrum U)"
  shows "texture_r (uSpectrum U) ((real i - 1 + 1 / 2) / uBins U, 1 / 2) = r8_value (uSpectrum U ! (i - 1))
    \<and> texture_r (uSpectrum U) ((real i + 1 / 2) / uBins U, 1 / 2) = r8_value (uSpectrum U ! i)
    \<and> texture_r (uSpectrum U) ((real i + 1 + 1 / 2) / uBins U, 1 / 2) = r8_value (uSpectrum U ! (i + 1))
    \<and> smoothSample U (real i) =
        (r8_value (uSpectrum U ! (i - 1)) + 2 * r8_value (uSpectrum U ! i)
          + r8_value (uSpectrum U ! (i + 1))) / 4
    \<and> sampleSpectrum U (real i) =
        max ((r8_value (uSpectrum U ! (i - 1)) + 2 * r8_value (uSpectrum U ! i)
          + r8_value (uSpectrum U ! (i + 1))) / 4 - 1 / 100) 0"
proof -
  let ?tex = "uSpectrum U"
  have ne: "?tex \<noteq> []"
    using hi by auto
  have tl: "texel ?tex (int i - 1) = r8_value (?tex ! (i - 1))"
    using texel_inside [of "int i - 1" ?tex] lo hi by (simp add: nat_diff_distrib')
  have tc: "texel ?tex (int i) = r8_value (?tex ! i)"
    using texel_inside [of "int i" ?tex] hi by simp
  have tr: "texel ?tex (int i + 1) = r8_value (?tex ! (i + 1))"
    using texel_inside [of "int i + 1" ?tex] hi by (simp add: nat_add_distrib)
  have l: "texture_r ?tex ((real i - 1 + 1 / 2) / uBins U, 1 / 2) = r8_value (?tex ! (i - 1))"
    using texture_r_center [OF ne, of "int i - 1" "1 / 2"] tl by (simp add: B)
  have c: "texture_r ?tex ((real i + 1 / 2) / uBins U, 1 / 2) = r8_value (?tex ! i)"
    using texture_r_center [OF ne, of "int i" "1 / 2"] tc by (simp add: B)
  have r: "texture_r ?tex ((real i + 1 + 1 / 2) / uBins U, 1 / 2) = r8_value (?tex ! (i + 1))"
    using texture_r_center [OF ne, of "int i + 1" "1 / 2"] tr by (simp add: B)
  have "real i \<le> uBins U - 1"
    using hi by (simp add: B)
  then have b: "sampleSpectrum_bin U (real i) = of_int (int i)"
    using lo sampleSpectrum_bin_inside [of "real i" U] by simp
  have s: "smoothSample U (real i) =
      (r8_value (?tex ! (i - 1)) + 2 * r8_value (?tex ! i) + r8_value (?tex ! (i + 1))) / 4"
    using smoothSample_centers [OF B ne b] tl tc tr by simp
  have g: "sampleSpectrum U (real i) =
      max ((r8_value (?tex ! (i - 1)) + 2 * r8_value (?tex ! i) + r8_value (?tex ! (i + 1))) / 4
        - 1 / 100) 0"
    unfolding sampleSpectrum_def s by (rule refl)
  show ?thesis
    by (intro conjI l c r s g)
qed

theorem sampleSpectrum_interior_bin_witness:
  "uBins quiet4 = real (length (uSpectrum quiet4)) \<and> (1::nat) \<le> 1
    \<and> 1 + 2 \<le> length (uSpectrum quiet4)
    \<and> smoothSample quiet4 (real (1::nat)) = 2 / 255
    \<and> sampleSpectrum quiet4 (real (1::nat)) = 0"
  using sampleSpectrum_interior_bin [of quiet4 1]
  by (simp add: quiet4_def r8_value_def)

text \<open>
  On a full-scale texture the average at bin 1 is 1 and \<open>sampleSpectrum\<close> returns 0.99:
  the returned value is not the plain average.
\<close>

theorem sampleSpectrum_not_plain_average:
  "sampleSpectrum loud4 1 \<noteq>
     (r8_value (uSpectrum loud4 ! 0) + 2 * r8_value (uSpectrum loud4 ! 1)
       + r8_value (uSpectrum loud4 ! 2)) / 4"
proof -
  have b: "sampleSpectrum_bin loud4 1 = of_int 1"
    by (simp add: sampleSpectrum_bin_def clamp_def loud4_def)
  have "smoothSample loud4 1 = 1"
    using smoothSample_centers [OF _ _ b]
    by (simp add: loud4_def texel_def r8_value_def)
  then show ?thesis
    by (simp add: sampleSpectrum_def loud4_def r8_value_def)
qed

text \<open>
  Claim C10. At the last bin \<open>B - 1\<close> the right neighbour's coordinate \<open>(B + 0.5) / B\<close>
  is greater than 1; edge clamping reads the last texel again, so the kernel value before
  the noise gate is \<open>(s[B - 2] + 3 * s[B - 1]) / 4\<close>.
\<close>

theorem sampleSpectrum_last_bin:
  assumes B: "uBins U = real (length (uSpectrum U))" and two: "2 \<le> length (uSpectrum U)"
  shows "sampleSpectrum_bin U (uBins U - 1) = uBins U - 1
    \<and> 1 < (uBins U - 1 + 1 + 1 / 2) / uBins U
    \<and> texture_r (uSpectrum U) ((uBins U - 1 + 1 + 1 / 2) / uBins U, 1 / 2)
        = r8_value (uSpectrum U ! (length (uSpectrum U) - 1))
    \<and> smoothSample U (uBins U - 1) =
        (r8_value (uSpectrum U ! (length (uSpectrum U) - 2))
          + 3 * r8_value (uSpectrum U ! (length (uSpectrum U) - 1))) / 4"
proof -
  let ?tex = "uSpectrum U"
  let ?n = "length ?tex"
  have ne: "?tex \<noteq> []"
    using two by auto
  have b: "sampleSpectrum_bin U (uBins U - 1) = of_int (int ?n - 1)"
    using two sampleSpectrum_bin_inside [of "uBins U - 1" U] by (simp add: B)
  have tl: "texel ?tex (int ?n - 1 - 1) = r8_value (?tex ! (?n - 2))"
    using texel_inside [of "int ?n - 2" ?tex] two by (simp add: nat_diff_distrib')
  have tc: "texel ?tex (int ?n - 1) = r8_value (?tex ! (?n - 1))"
    using texel_past_edge [of ?tex "int ?n - 1"] ne by simp
  have tr: "texel ?tex (int ?n - 1 + 1) = r8_value (?tex ! (?n - 1))"
    using texel_past_edge [of ?tex "int ?n - 1 + 1"] ne by simp
  have "0 < real ?n"
    using ne by simp
  then have past: "1 < (uBins U - 1 + 1 + 1 / 2) / uBins U"
    unfolding B by (subst less_divide_eq) simp
  have r: "texture_r ?tex ((uBins U - 1 + 1 + 1 / 2) / uBins U, 1 / 2) = r8_value (?tex ! (?n - 1))"
    using texture_r_center [OF ne, of "int ?n" "1 / 2"] tr by (simp add: B)
  have s: "smoothSample U (uBins U - 1) =
      (r8_value (?tex ! (?n - 2)) + 3 * r8_value (?tex ! (?n - 1))) / 4"
    using smoothSample_centers [OF B ne b] tl tc tr by simp
  have b': "sampleSpectrum_bin U (uBins U - 1) = uBins U - 1"
    using b two by (simp add: B)
  show ?thesis
    by (intro conjI b' past r s)
qed

theorem sampleSpectrum_last_bin_witness:
  "uBins ramp4 = real (length (uSpectrum ramp4)) \<and> 2 \<le> length (uSpectrum ramp4)
    \<and> smoothSample ramp4 (uBins ramp4 - 1) = (102 / 255 + 3 * (255 / 255)) / 4"
  using sampleSpectrum_last_bin [of ramp4]
  by (simp add: ramp4_def r8_value_def)

section \<open>The bin clamp\<close>

lemma clamp_idem: "lo \<le> hi \<Longrightarrow> clamp (clamp x lo hi) lo hi = clamp x lo hi"
  by (simp add: clamp_def)

lemma smoothSample_clamped:
  assumes "2 \<le> uBins U"
  shows "smoothSample U (sampleSpectrum_bin U bin) = smoothSample U bin"
proof -
  have "sampleSpectrum_bin U (sampleSpectrum_bin U bin) = sampleSpectrum_bin U bin"
    unfolding sampleSpectrum_bin_def using assms by (intro clamp_idem) simp
  then show ?thesis
    by (simp add: smoothSample_def)
qed

lemma main_bin_0: "main_bin U 0 = 0"
  by (simp add: main_bin_def exp01_def)

lemma main_bin_1: "main_bin U 1 = uBins U - 1"
  by (simp add: main_bin_def exp01_def)

text \<open>
  Claim C5, as the code has it. With \<open>B \<ge> 2\<close> the bin is clamped to \<open>[1, B - 1]\<close> inside
  \<open>sampleSpectrum\<close>, and the kernel depends on the bin only through the clamped value;
  \<open>main\<close> keeps its own unclamped \<open>bin\<close> and computes the tilt from it. For
  \<open>angle01 = 0\<close> the bin of \<open>main\<close> is 0, the bin sampled is 1 and the tilt is
  \<open>pow (1 / B) 0.5\<close>; for \<open>angle01 = 1\<close> both bins are \<open>B - 1\<close>.
\<close>

theorem bin_clamp_feeds_kernel:
  assumes "2 \<le> uBins U"
  shows "1 \<le> sampleSpectrum_bin U bin \<and> sampleSpectrum_bin U bin \<le> uBins U - 1
    \<and> smoothSample U bin = smoothSample U (sampleSpectrum_bin U bin)
    \<and> main_amp U bin =
        sampleSpectrum U (sampleSpectrum_bin U bin) * mix (7 / 10) 2 (pow ((bin + 1) / uBins U) (1 / 2))
    \<and> main_bin U 0 = 0
    \<and> sampleSpectrum_bin U (main_bin U 0) = 1
    \<and> main_tilt U (main_bin U 0) = pow (1 / uBins U) (1 / 2)
    \<and> main_bin U 1 = uBins U - 1
    \<and> sampleSpectrum_bin U (main_bin U 1) = uBins U - 1"
proof -
  have r: "1 \<le> sampleSpectrum_bin U bin \<and> sampleSpectrum_bin U bin \<le> uBins U - 1"
    using assms by (rule sampleSpectrum_bin_range)
  have s: "smoothSample U bin = smoothSample U (sampleSpectrum_bin U bin)"
    using smoothSample_clamped [OF assms] by simp
  have a: "main_amp U bin =
      sampleSpectrum U (sampleSpectrum_bin U bin) * mix (7 / 10) 2 (pow ((bin + 1) / uBins U) (1 / 2))"
    unfolding main_amp_def main_tilt_def sampleSpectrum_def using s by simp
  have z: "sampleSpectrum_bin U (main_bin U 0) = 1"
    unfolding main_bin_0 using assms by (intro sampleSpectrum_bin_low) simp_all
  have t: "main_tilt U (main_bin U 0) = pow (1 / uBins U) (1 / 2)"
    by (simp add: main_bin_0 main_tilt_def)
  have e: "sampleSpectrum_bin U (main_bin U 1) = uBins U - 1"
    unfolding main_bin_1 using assms by (intro sampleSpectrum_bin_inside) simp_all
  show ?thesis
    using r s a z t e main_bin_0 main_bin_1 by blast
qed

theorem bin_clamp_feeds_kernel_witness:
  "2 \<le> uBins loud4 \<and> main_bin loud4 0 = 0 \<and> sampleSpectrum_bin loud4 (main_bin loud4 0) = 1
    \<and> main_bin loud4 1 = 3 \<and> sampleSpectrum_bin loud4 (main_bin loud4 1) = 3"
proof -
  have u: "uBins loud4 = 4"
    by (simp add: loud4_def)
  then have h: "2 \<le> uBins loud4"
    by simp
  have e: "uBins loud4 - 1 = 3"
    by (simp add: u)
  show ?thesis
    using bin_clamp_feeds_kernel [OF h, of 0] h unfolding e by blast
qed

text \<open>
  At \<open>angle01 = 0\<close> with four bins the tilt \<open>main\<close> computes is not the tilt of the
  clamped bin 1.
\<close>

theorem tilt_reads_unclamped_bin:
  "sampleSpectrum_bin loud4 (main_bin loud4 0) = 1
    \<and> main_tilt loud4 (main_bin loud4 0)
        \<noteq> main_tilt loud4 (sampleSpectrum_bin loud4 (main_bin loud4 0))"
proof -
  have c: "sampleSpectrum_bin loud4 (main_bin loud4 0) = 1"
    unfolding main_bin_0 by (intro sampleSpectrum_bin_low) (simp_all add: loud4_def)
  have "(1 / 4 :: real) powr (1 / 2) < (2 / 4) powr (1 / 2)"
    by (intro powr_less_mono2) simp_all
  then have "main_tilt loud4 (main_bin loud4 0) < main_tilt loud4 1"
    by (simp add: main_bin_0 main_tilt_def pow_def loud4_def)
  then show ?thesis
    using c by simp
qed

section \<open>The ring pattern\<close>

lemma fract_range: "0 \<le> fract x \<and> fract x < 1"
  unfolding fract_def by linarith

lemma fract_eq_0_iff: "fract x = 0 \<longleftrightarrow> x \<in> \<int>"
proof
  assume "fract x = 0"
  then have "x = of_int \<lfloor>x\<rfloor>" by (simp add: fract_def)
  then show "x \<in> \<int>" by (metis Ints_of_int)
next
  assume "x \<in> \<int>"
  then show "fract x = 0" by (auto simp: fract_def elim: Ints_cases)
qed

lemma clamp_range: "lo \<le> hi \<Longrightarrow> lo \<le> clamp x lo hi \<and> clamp x lo hi \<le> hi"
  by (simp add: clamp_def)

lemma cubic_range:
  fixes t :: real
  assumes "0 \<le> t" and "t \<le> 1"
  shows "0 \<le> t * t * (3 - 2 * t)" and "t * t * (3 - 2 * t) \<le> 1"
proof -
  show "0 \<le> t * t * (3 - 2 * t)"
    using assms by simp
  have "1 - t * t * (3 - 2 * t) = (1 - t) * (1 - t) * (1 + 2 * t)"
    by (simp add: algebra_simps)
  moreover have "0 \<le> (1 - t) * (1 - t) * (1 + 2 * t)"
    using assms by simp
  ultimately show "t * t * (3 - 2 * t) \<le> 1"
    by linarith
qed

lemma cubic_eq_1_iff:
  fixes t :: real
  assumes "0 \<le> t" and "t \<le> 1"
  shows "t * t * (3 - 2 * t) = 1 \<longleftrightarrow> t = 1"
proof
  assume "t * t * (3 - 2 * t) = 1"
  moreover have "1 - t * t * (3 - 2 * t) = (1 - t) * (1 - t) * (1 + 2 * t)"
    by (simp add: algebra_simps)
  ultimately have "(1 - t) * (1 - t) * (1 + 2 * t) = 0"
    by linarith
  then show "t = 1"
    using assms by auto
qed simp

lemma smoothstep_range: "0 \<le> smoothstep e0 e1 x \<and> smoothstep e0 e1 x \<le> 1"
proof -
  have "0 \<le> clamp ((x - e0) / (e1 - e0)) 0 1 \<and> clamp ((x - e0) / (e1 - e0)) 0 1 \<le> 1"
    by (rule clamp_range) simp
  then show ?thesis
    unfolding smoothstep_def Let_def using cubic_range by blast
qed

lemma rangeRings_ring_range: "0 \<le> rangeRings_ring radius count \<and> rangeRings_ring radius count \<le> 1"
  unfolding rangeRings_ring_def Let_def by (rule smoothstep_range)

lemma rangeRings_nonneg: "0 \<le> rangeRings radius count"
  unfolding rangeRings_def using rangeRings_ring_range smoothstep_range
  by (intro mult_nonneg_nonneg) blast+

lemma ring_line_eq_1_iff:
  assumes "0 \<le> m"
  shows "smoothstep (2 / 100) 0 m = 1 \<longleftrightarrow> m = 0"
proof -
  have c: "(m - 2 / 100) / (0 - 2 / 100) = 1 - 50 * m"
    by (simp add: field_simps)
  have r: "0 \<le> clamp (1 - 50 * m) 0 1 \<and> clamp (1 - 50 * m) 0 1 \<le> 1"
    by (rule clamp_range) simp
  have "smoothstep (2 / 100) 0 m = 1 \<longleftrightarrow> clamp (1 - 50 * m) 0 1 = 1"
    unfolding smoothstep_def Let_def c using r cubic_eq_1_iff by blast
  also have "\<dots> \<longleftrightarrow> m = 0"
    using assms by (auto simp: clamp_def min_def max_def)
  finally show ?thesis .
qed

lemma rangeRings_ring_eq_1_iff: "rangeRings_ring radius count = 1 \<longleftrightarrow> radius * count \<in> \<int>"
proof -
  let ?t = "fract (radius * count)"
  have t: "0 \<le> ?t" "?t < 1"
    using fract_range by blast+
  then have m: "0 \<le> min ?t (1 - ?t)"
    by simp
  have "rangeRings_ring radius count = 1 \<longleftrightarrow> min ?t (1 - ?t) = 0"
    unfolding rangeRings_ring_def Let_def using m by (rule ring_line_eq_1_iff)
  also have "\<dots> \<longleftrightarrow> ?t = 0"
    using t by (auto simp: min_def)
  finally show ?thesis
    by (simp add: fract_eq_0_iff)
qed

lemma fifths_in_unit:
  fixes r :: real
  assumes "r * 5 \<in> \<int>" and "0 \<le> r" and "r \<le> 1"
  shows "r \<in> {0, 1 / 5, 2 / 5, 3 / 5, 4 / 5, 1}"
proof -
  from assms(1) obtain k :: int where k: "r * 5 = of_int k"
    by (auto elim: Ints_cases)
  have "0 \<le> (of_int k :: real)" "(of_int k :: real) \<le> 5"
    using assms(2,3) k by linarith+
  then have "0 \<le> k" "k \<le> 5"
    by linarith+
  then have "k = 0 \<or> k = 1 \<or> k = 2 \<or> k = 3 \<or> k = 4 \<or> k = 5"
    by arith
  then show ?thesis
    using k by auto
qed

lemma ring_maxima_closed:
  "{r. 0 \<le> r \<and> r \<le> 1 \<and> rangeRings_ring r 5 = 1} = {0, 1 / 5, 2 / 5, 3 / 5, 4 / 5, 1}"
proof (intro equalityI subsetI)
  fix r :: real
  assume "r \<in> {r. 0 \<le> r \<and> r \<le> 1 \<and> rangeRings_ring r 5 = 1}"
  then show "r \<in> {0, 1 / 5, 2 / 5, 3 / 5, 4 / 5, 1}"
    using fifths_in_unit by (simp add: rangeRings_ring_eq_1_iff)
next
  fix r :: real
  assume "r \<in> {0, 1 / 5, 2 / 5, 3 / 5, 4 / 5, 1}"
  then show "r \<in> {r. 0 \<le> r \<and> r \<le> 1 \<and> rangeRings_ring r 5 = 1}"
    by (auto simp: rangeRings_ring_eq_1_iff)
qed

lemma ring_maxima_half_open:
  "{r. 0 \<le> r \<and> r < 1 \<and> rangeRings_ring r 5 = 1} = {0, 1 / 5, 2 / 5, 3 / 5, 4 / 5}"
proof -
  have "{r. 0 \<le> r \<and> r < 1 \<and> rangeRings_ring r 5 = 1}
      = {r. 0 \<le> r \<and> r \<le> 1 \<and> rangeRings_ring r 5 = 1} - {1}"
    by auto
  also have "\<dots> = {0, 1 / 5, 2 / 5, 3 / 5, 4 / 5}"
    unfolding ring_maxima_closed by auto
  finally show ?thesis .
qed

text \<open>
  Claim C8, as the code has it. \<open>rangeRings\<close> is the ring line
  \<open>smoothstep 0.02 0 (min t (1 - t))\<close> with \<open>t = fract (radius * count)\<close>, times the fade
  \<open>smoothstep 1 0 radius\<close>. For count 5 the ring line never exceeds 1 and reaches 1 at
  exactly five radii with \<open>0 \<le> radius < 1\<close>: 0, 1/5, 2/5, 3/5 and 4/5. At radius 1, still
  inside the mask, the ring line is 1 once more, and the fade makes \<open>rangeRings\<close> 0 there.
\<close>

theorem ring_maxima_per_sweep:
  "rangeRings radius count =
      smoothstep (2 / 100) 0 (min (fract (radius * count)) (1 - fract (radius * count)))
        * smoothstep 1 0 radius
    \<and> rangeRings_ring radius count \<le> 1
    \<and> {r. 0 \<le> r \<and> r < 1 \<and> rangeRings_ring r 5 = 1} = {0, 1 / 5, 2 / 5, 3 / 5, 4 / 5}
    \<and> card {r. 0 \<le> r \<and> r < 1 \<and> rangeRings_ring r 5 = 1} = 5
    \<and> rangeRings_ring 1 5 = 1
    \<and> rangeRings 1 5 = 0"
proof -
  have f: "rangeRings radius count =
      smoothstep (2 / 100) 0 (min (fract (radius * count)) (1 - fract (radius * count)))
        * smoothstep 1 0 radius"
    by (simp add: rangeRings_def rangeRings_ring_def Let_def)
  have u: "rangeRings_ring radius count \<le> 1"
    using rangeRings_ring_range by blast
  have c: "card {r. 0 \<le> r \<and> r < 1 \<and> rangeRings_ring r 5 = 1} = 5"
    unfolding ring_maxima_half_open by simp
  have e: "rangeRings_ring 1 5 = 1"
    by (simp add: rangeRings_ring_eq_1_iff)
  have z: "rangeRings 1 5 = 0"
    by (simp add: rangeRings_def smoothstep_def clamp_def)
  show ?thesis
    by (intro conjI f u ring_maxima_half_open c e z)
qed

text \<open>
  With both ends of the sweep counted, the ring line is at its maximum at six radii.
\<close>

theorem six_ring_maxima_in_closed_sweep:
  "rangeRings_ring 0 5 = 1 \<and> rangeRings_ring (1 / 5) 5 = 1 \<and> rangeRings_ring (2 / 5) 5 = 1
    \<and> rangeRings_ring (3 / 5) 5 = 1 \<and> rangeRings_ring (4 / 5) 5 = 1
    \<and> rangeRings_ring 1 5 = 1"
  by (simp add: rangeRings_ring_eq_1_iff)

section \<open>The circular mask and alpha\<close>

lemma main_outside:
  assumes "1 < length_vec2 (main_polarUV U vUV)"
  shows "main U vUV = None"
  using assms by (simp add: main_def)

lemma main_inside:
  assumes "length_vec2 (main_polarUV U vUV) \<le> 1"
  shows "main U vUV =
     Some (fragColor_of main_base (main_glow U (main_bin U (main_angle01 (main_polarUV U vUV))))
             (rangeRings (length_vec2 (main_polarUV U vUV)) 5))"
  using assms by (simp add: main_def Let_def)

lemma vec_w_fragColor_of: "vec_w (fragColor_of base glow rings) = 1 + rings"
  by (cases base, cases glow) (auto simp: fragColor_of_def)

text \<open>
  Claim C9, as the code has it. A pixel with radius above 1 is discarded. A pixel inside
  the mask gets a colour whose alpha is \<open>1 + rangeRings radius 5\<close>: never below 1, so it
  is 1 once clamped to the range of the framebuffer, and above 1 on a ring line.
\<close>

theorem fragment_alpha:
  "(1 < length_vec2 (main_polarUV U vUV) \<longrightarrow> main U vUV = None)
    \<and> (length_vec2 (main_polarUV U vUV) \<le> 1 \<longrightarrow>
         (\<exists>c. main U vUV = Some c
            \<and> vec_w c = 1 + rangeRings (length_vec2 (main_polarUV U vUV)) 5
            \<and> 1 \<le> vec_w c \<and> clamp (vec_w c) 0 1 = 1))"
proof (intro conjI impI)
  assume "1 < length_vec2 (main_polarUV U vUV)"
  then show "main U vUV = None"
    by (rule main_outside)
next
  let ?r = "length_vec2 (main_polarUV U vUV)"
  assume "?r \<le> 1"
  then have m: "main U vUV =
      Some (fragColor_of main_base (main_glow U (main_bin U (main_angle01 (main_polarUV U vUV))))
             (rangeRings ?r 5))"
    by (rule main_inside)
  have "0 \<le> rangeRings ?r 5"
    by (rule rangeRings_nonneg)
  then show "\<exists>c. main U vUV = Some c \<and> vec_w c = 1 + rangeRings ?r 5
      \<and> 1 \<le> vec_w c \<and> clamp (vec_w c) 0 1 = 1"
    unfolding m by (simp add: vec_w_fragColor_of clamp_def)
qed

lemma length_vec2_on_axis: "length_vec2 (0, y) = \<bar>y\<bar>"
  by (simp add: length_vec2_def)

lemma rangeRings_fifth: "rangeRings (1 / 5) 5 = 112 / 125"
  by (simp add: rangeRings_def rangeRings_ring_def fract_def smoothstep_def clamp_def)

lemma polarUV_ring_pixel: "main_polarUV loud4 (1 / 2, 3 / 5) = (0, 1 / 5)"
  by (simp add: main_polarUV_def loud4_def)

lemma polarUV_corner_pixel: "main_polarUV loud4 (1, 1) = (4 / 3, 1)"
  by (simp add: main_polarUV_def loud4_def)

theorem fragment_alpha_witness:
  "length_vec2 (main_polarUV loud4 (1 / 2, 3 / 5)) \<le> 1
    \<and> map_option vec_w (main loud4 (1 / 2, 3 / 5)) = Some (237 / 125)
    \<and> 1 < length_vec2 (main_polarUV loud4 (1, 1))
    \<and> main loud4 (1, 1) = None"
proof -
  have i: "length_vec2 (main_polarUV loud4 (1 / 2, 3 / 5)) = 1 / 5"
    by (simp add: polarUV_ring_pixel length_vec2_on_axis)
  have "length_vec2 (main_polarUV loud4 (1, 1)) = sqrt (25 / 9)"
    by (simp add: polarUV_corner_pixel length_vec2_def power2_eq_square)
  then have o: "1 < length_vec2 (main_polarUV loud4 (1, 1))"
    by simp
  show ?thesis
    using fragment_alpha [of loud4 "(1 / 2, 3 / 5)"] fragment_alpha [of loud4 "(1, 1)"] i o
    by (auto simp: rangeRings_fifth)
qed

text \<open>
  The pixel at radius 0.2, on the first ring line, has alpha 237/125.
\<close>

theorem ring_pixel_alpha_above_one:
  "length_vec2 (main_polarUV loud4 (1 / 2, 3 / 5)) \<le> 1
    \<and> map_option vec_w (main loud4 (1 / 2, 3 / 5)) = Some (237 / 125)"
proof -
  have i: "length_vec2 (main_polarUV loud4 (1 / 2, 3 / 5)) = 1 / 5"
    by (simp add: polarUV_ring_pixel length_vec2_on_axis)
  then have "length_vec2 (main_polarUV loud4 (1 / 2, 3 / 5)) \<le> 1"
    by simp
  from main_inside [OF this] show ?thesis
    by (simp add: i vec_w_fragColor_of rangeRings_fifth)
qed

section \<open>The noise gate\<close>

lemma fragColor_of_no_glow:
  "fragColor_of main_base (0, 0, 0) rings =
     \<lparr>vec_x = 5 / 100 + rings, vec_y = 8 / 100 + rings, vec_z = 6 / 100 + rings,
      vec_w = 1 + rings\<rparr>"
  by (simp add: fragColor_of_def main_base_def)

lemma texel_quiet4: "texel (uSpectrum quiet4) i = 2 / 255"
proof -
  let ?n = "nat (min (max i 0) (int (length (uSpectrum quiet4)) - 1))"
  have "?n < 4"
    by (simp add: quiet4_def)
  then have "?n = 0 \<or> ?n = 1 \<or> ?n = 2 \<or> ?n = 3"
    by arith
  then have "uSpectrum quiet4 ! ?n = 2"
    by (auto simp: quiet4_def)
  then show ?thesis
    by (simp add: texel_def r8_value_def quiet4_def)
qed

lemma texture_r_quiet4: "texture_r (uSpectrum quiet4) uv = 2 / 255"
proof -
  have "(1 - a) * c + a * c = c" for a c :: real
    by (simp add: algebra_simps)
  then show ?thesis
    by (simp only: texture_r_def Let_def texel_quiet4)
qed

lemma smoothSample_quiet4: "smoothSample quiet4 bin = 2 / 255"
  by (simp add: smoothSample_def Let_def texture_r_quiet4)

text \<open>
  Claim C7. For a pixel inside the mask whose smoothed amplitude is at most 0.01, the gated
  amplitude is exactly 0, so are the tilted amplitude and the gain, the glow is the zero
  vector, and the fragment colour is the base colour plus the rings.
\<close>

theorem noise_gate_zero_glow:
  assumes r: "length_vec2 (main_polarUV U vUV) \<le> 1"
    and b: "bin = main_bin U (main_angle01 (main_polarUV U vUV))"
    and g: "smoothSample U bin \<le> 1 / 100"
  shows "sampleSpectrum U bin = 0 \<and> main_amp U bin = 0 \<and> main_gain U bin = 0
    \<and> main_glow U bin = (0, 0, 0)
    \<and> main U vUV =
        Some \<lparr>vec_x = 5 / 100 + rangeRings (length_vec2 (main_polarUV U vUV)) 5,
              vec_y = 8 / 100 + rangeRings (length_vec2 (main_polarUV U vUV)) 5,
              vec_z = 6 / 100 + rangeRings (length_vec2 (main_polarUV U vUV)) 5,
              vec_w = 1 + rangeRings (length_vec2 (main_polarUV U vUV)) 5\<rparr>"
proof -
  have s: "sampleSpectrum U bin = 0"
    using g by (simp add: sampleSpectrum_def)
  then have a: "main_amp U bin = 0"
    by (simp add: main_amp_def)
  then have n: "main_gain U bin = 0"
    by (simp add: main_gain_def pow_def)
  then have w: "main_glow U bin = (0, 0, 0)"
    by (simp add: main_glow_def)
  have m: "main U vUV =
      Some \<lparr>vec_x = 5 / 100 + rangeRings (length_vec2 (main_polarUV U vUV)) 5,
            vec_y = 8 / 100 + rangeRings (length_vec2 (main_polarUV U vUV)) 5,
            vec_z = 6 / 100 + rangeRings (length_vec2 (main_polarUV U vUV)) 5,
            vec_w = 1 + rangeRings (length_vec2 (main_polarUV U vUV)) 5\<rparr>"
    unfolding main_inside [OF r] b [symmetric] w by (rule arg_cong [OF fragColor_of_no_glow])
  show ?thesis
    by (intro conjI s a n w m)
qed

lemma polarUV_quiet_pixel: "main_polarUV quiet4 (1 / 2, 3 / 5) = (0, 1 / 5)"
  by (simp add: main_polarUV_def quiet4_def)

theorem noise_gate_zero_glow_witness:
  "length_vec2 (main_polarUV quiet4 (1 / 2, 3 / 5)) \<le> 1
    \<and> smoothSample quiet4 (main_bin quiet4 (main_angle01 (main_polarUV quiet4 (1 / 2, 3 / 5))))
        \<le> 1 / 100
    \<and> main quiet4 (1 / 2, 3 / 5) =
        Some \<lparr>vec_x = 5 / 100 + 112 / 125, vec_y = 8 / 100 + 112 / 125,
              vec_z = 6 / 100 + 112 / 125, vec_w = 1 + 112 / 125\<rparr>"
proof -
  have i: "length_vec2 (main_polarUV quiet4 (1 / 2, 3 / 5)) = 1 / 5"
    by (simp add: polarUV_quiet_pixel length_vec2_on_axis)
  then have r: "length_vec2 (main_polarUV quiet4 (1 / 2, 3 / 5)) \<le> 1"
    by simp
  have g: "smoothSample quiet4 (main_bin quiet4 (main_angle01 (main_polarUV quiet4 (1 / 2, 3 / 5))))
      \<le> 1 / 100"
    by (simp add: smoothSample_quiet4)
  show ?thesis
    using r g noise_gate_zero_glow [OF r refl g] by (simp add: i rangeRings_fifth)
qed

section \<open>The frame loop\<close>

lemma init_click_granted:
  "init_click True c =
     Inr \<lparr>canvas = c, analyzer = \<lparr>fftSize = 2048\<rparr>, bins = 1024, spectrum = replicate 1024 0,
          spectrumTexture = replicate 1024 0, texture_bound = False,
          program_uSpectrum = 0, program_uBins = 1024,
          program_uAspect = (real_of_int (canvas_width c), real_of_int (canvas_height c)),
          draws = []\<rparr>"
  by (simp add: init_click_def initAudioAnalyzer_def frequencyBinCount_def
      createSpectrumTexture_def Let_def)

lemma init_click_denied: "init_click False c = Inl MicInitFailed"
  by (simp add: init_click_def initAudioAnalyzer_def)

lemma init_click_Inr:
  assumes "init_click granted c = Inr s"
  shows "length (spectrum s) = bins s \<and> length (spectrumTexture s) = bins s
    \<and> bins s = frequencyBinCount (analyzer s) \<and> program_uSpectrum s = 0
    \<and> bins s = 1024 \<and> draws s = []
    \<and> program_uAspect s = (real_of_int (canvas_width c), real_of_int (canvas_height c))"
proof (cases granted)
  case True
  then show ?thesis
    using assms by (auto simp: init_click_granted frequencyBinCount_def)
next
  case False
  then show ?thesis
    using assms by (simp add: init_click_denied)
qed

lemma getByteFrequencyData_full:
  assumes "length array = frequencyBinCount an"
  shows "getByteFrequencyData an mag array = map mag [0..<frequencyBinCount an]"
  unfolding getByteFrequencyData_def using assms by simp

lemma render_unfold:
  "render F s =
     drawArrays (texSubImage2D (bins s)
       (getByteFrequencyData (analyzer s) (frame_mag F) (spectrum s))
       (s\<lparr>canvas := resizeCanvas (frame_env F) (canvas s),
          spectrum := getByteFrequencyData (analyzer s) (frame_mag F) (spectrum s),
          texture_bound := True\<rparr>))"
  by (simp add: render_def Let_def)

lemma render_keeps_uniforms:
  "program_uAspect (render F s) = program_uAspect s
    \<and> program_uBins (render F s) = program_uBins s
    \<and> program_uSpectrum (render F s) = program_uSpectrum s
    \<and> bins (render F s) = bins s \<and> analyzer (render F s) = analyzer s"
  by (simp add: render_unfold drawArrays_def texSubImage2D_def)

lemma render_canvas: "canvas (render F s) = resizeCanvas (frame_env F) (canvas s)"
  by (simp add: render_unfold drawArrays_def texSubImage2D_def)

lemma render_draws:
  "draws (render F s) = draws s @ [last (draws (render F s))]
    \<and> uAspect (draw_uniforms (last (draws (render F s)))) = program_uAspect s
    \<and> uBins (draw_uniforms (last (draws (render F s)))) = program_uBins s
    \<and> draw_viewport (last (draws (render F s))) = viewport (canvas (render F s))"
  by (simp add: render_unfold drawArrays_def texSubImage2D_def)

lemma render_fresh:
  assumes "length (spectrum s) = bins s" and "length (spectrumTexture s) = bins s"
    and "bins s = frequencyBinCount (analyzer s)" and "program_uSpectrum s = 0"
  shows "spectrum (render F s) = map (frame_mag F) [0..<bins s]"
    and "spectrumTexture (render F s) = spectrum (render F s)"
    and "uSpectrum (draw_uniforms (last (draws (render F s)))) = spectrum (render F s)"
proof -
  let ?sp = "getByteFrequencyData (analyzer s) (frame_mag F) (spectrum s)"
  have sp: "?sp = map (frame_mag F) [0..<bins s]"
    using assms(1,3) getByteFrequencyData_full [of "spectrum s" "analyzer s" "frame_mag F"]
    by simp
  then have len: "length ?sp = bins s"
    by simp
  show "spectrum (render F s) = map (frame_mag F) [0..<bins s]"
    using sp by (simp add: render_unfold drawArrays_def texSubImage2D_def)
  show "spectrumTexture (render F s) = spectrum (render F s)"
    using len assms(2) by (simp add: render_unfold drawArrays_def texSubImage2D_def)
  show "uSpectrum (draw_uniforms (last (draws (render F s)))) = spectrum (render F s)"
    using len assms(2,4) by (simp add: render_unfold drawArrays_def texSubImage2D_def)
qed

lemma render_keeps_ready:
  assumes "length (spectrum s) = bins s" and "length (spectrumTexture s) = bins s"
    and "bins s = frequencyBinCount (analyzer s)" and "program_uSpectrum s = 0"
  shows "length (spectrum (render F s)) = bins (render F s)
    \<and> length (spectrumTexture (render F s)) = bins (render F s)
    \<and> bins (render F s) = frequencyBinCount (analyzer (render F s))
    \<and> program_uSpectrum (render F s) = 0"
  using render_fresh [OF assms, of F] render_keeps_uniforms [of F s] assms by simp

lemma frames_keep_ready:
  assumes "length (spectrum s) = bins s" and "length (spectrumTexture s) = bins s"
    and "bins s = frequencyBinCount (analyzer s)" and "program_uSpectrum s = 0"
  shows "length (spectrum (frames Fs s)) = bins (frames Fs s)
    \<and> length (spectrumTexture (frames Fs s)) = bins (frames Fs s)
    \<and> bins (frames Fs s) = frequencyBinCount (analyzer (frames Fs s))
    \<and> program_uSpectrum (frames Fs s) = 0"
  using assms
proof (induction Fs arbitrary: s)
  case Nil
  then show ?case by simp
next
  case (Cons F Fs)
  have "length (spectrum (render F s)) = bins (render F s)
    \<and> length (spectrumTexture (render F s)) = bins (render F s)
    \<and> bins (render F s) = frequencyBinCount (analyzer (render F s))
    \<and> program_uSpectrum (render F s) = 0"
    using Cons.prems by (rule render_keeps_ready)
  then show ?case
    using Cons.IH [of "render F s"] by simp
qed

lemma frames_keep_uniforms:
  "program_uAspect (frames Fs s) = program_uAspect s \<and> bins (frames Fs s) = bins s"
  by (induction Fs arbitrary: s) (simp_all add: render_keeps_uniforms)

text \<open>
  Claim C3. In every frame that runs after a successful click, whatever frames ran before,
  the snapshot is refreshed from the analyzer, the texture is overwritten with the whole
  snapshot, and the draw issued afterwards reads a texture equal to that snapshot.
\<close>

theorem texture_fresh_at_draw:
  assumes "init_click granted c = Inr s0"
  shows "spectrum (render F (frames Fs s0)) = map (frame_mag F) [0..<1024]
    \<and> spectrumTexture (render F (frames Fs s0)) = spectrum (render F (frames Fs s0))
    \<and> draws (render F (frames Fs s0)) =
        draws (frames Fs s0) @ [last (draws (render F (frames Fs s0)))]
    \<and> uSpectrum (draw_uniforms (last (draws (render F (frames Fs s0)))))
        = spectrum (render F (frames Fs s0))"
proof -
  let ?s = "frames Fs s0"
  have i: "length (spectrum s0) = bins s0" "length (spectrumTexture s0) = bins s0"
    "bins s0 = frequencyBinCount (analyzer s0)" "program_uSpectrum s0 = 0" "bins s0 = 1024"
    using init_click_Inr [OF assms] by simp_all
  have r: "length (spectrum ?s) = bins ?s" "length (spectrumTexture ?s) = bins ?s"
    "bins ?s = frequencyBinCount (analyzer ?s)" "program_uSpectrum ?s = 0"
    using frames_keep_ready [OF i(1-4), of Fs] by simp_all
  have b: "bins ?s = 1024"
    using frames_keep_uniforms [of Fs s0] i(5) by simp
  show ?thesis
    using render_fresh [OF r, of F] render_draws [of F ?s] b by simp
qed

theorem texture_fresh_at_draw_witness:
  "init_click True canvas_800x600 = Inr started
    \<and> uSpectrum (draw_uniforms (last (draws (render portrait_frame (frames [collapsed_frame] started)))))
        = map silence [0..<1024]"
proof -
  have h: "init_click True canvas_800x600 = Inr started"
    by (simp add: started_def init_click_granted)
  show ?thesis
    using h texture_fresh_at_draw [OF h, of portrait_frame "[collapsed_frame]"]
    by (simp add: portrait_frame_def)
qed

lemma started_eq:
  "started =
     \<lparr>canvas = canvas_800x600, analyzer = \<lparr>fftSize = 2048\<rparr>, bins = 1024,
      spectrum = replicate 1024 0, spectrumTexture = replicate 1024 0, texture_bound = False,
      program_uSpectrum = 0, program_uBins = 1024, program_uAspect = (800, 600),
      draws = []\<rparr>"
  by (simp add: started_def init_click_granted canvas_800x600_def)

lemma resize_portrait:
  "resizeCanvas (frame_env portrait_frame) canvas_800x600 =
     \<lparr>canvas_width = 600, canvas_height = 800, viewport = (0, 0, 600, 800)\<rparr>"
  by (simp add: resizeCanvas_def portrait_frame_def canvas_800x600_def Let_def)

lemma resize_collapsed:
  "resizeCanvas (frame_env collapsed_frame) canvas_800x600 =
     \<lparr>canvas_width = 0, canvas_height = 600, viewport = (0, 0, 0, 600)\<rparr>"
  by (simp add: resizeCanvas_def collapsed_frame_def canvas_800x600_def Let_def)

text \<open>
  Claim C1, evaluated. After a click on an 800 x 600 canvas, a frame in which the element
  measures 600 x 800 resizes the canvas and the viewport to 600 x 800, and its draw still
  reads \<open>uAspect = (800, 600)\<close>: only the click handler writes that uniform.
\<close>

theorem uAspect_stale_after_resize:
  "program_uAspect started = (800, 600)
    \<and> canvas (render portrait_frame started) =
        \<lparr>canvas_width = 600, canvas_height = 800, viewport = (0, 0, 600, 800)\<rparr>
    \<and> uAspect (draw_uniforms (last (draws (render portrait_frame started)))) = (800, 600)"
proof -
  have a: "program_uAspect started = (800, 600)" and c: "canvas started = canvas_800x600"
    by (simp_all add: started_eq)
  show ?thesis
    using render_draws [of portrait_frame started] render_canvas [of portrait_frame started]
    by (simp add: a c resize_portrait)
qed

text \<open>
  Claim C2, as the code has it. Every frame issues exactly one draw, whatever the size of
  the surface, with the viewport \<open>resizeCanvas\<close> leaves; \<open>render\<close> has no branch that
  skips the draw.
\<close>

theorem render_always_draws:
  "length (draws (render F s)) = length (draws s) + 1
    \<and> draw_viewport (last (draws (render F s))) = viewport (resizeCanvas (frame_env F) (canvas s))"
  by (simp add: render_unfold drawArrays_def texSubImage2D_def)

theorem render_always_draws_witness:
  "length (draws (render portrait_frame started)) = 1
    \<and> draw_viewport (last (draws (render portrait_frame started))) = (0, 0, 600, 800)
    \<and> length (draws (render collapsed_frame (render portrait_frame started))) = 2"
proof -
  have c: "canvas started = canvas_800x600" and d: "draws started = []"
    by (simp_all add: started_eq)
  show ?thesis
    using render_always_draws [of portrait_frame started]
      render_always_draws [of collapsed_frame "render portrait_frame started"]
    by (simp add: c d resize_portrait)
qed

text \<open>
  A frame whose surface is 0 wide issues its draw, on the viewport \<open>(0, 0, 0, 600)\<close>.
\<close>

theorem degenerate_frame_still_draws:
  "canvas_width (canvas (render collapsed_frame started)) = 0
    \<and> draws started = []
    \<and> length (draws (render collapsed_frame started)) = 1
    \<and> draw_viewport (last (draws (render collapsed_frame started))) = (0, 0, 0, 600)"
proof -
  have c: "canvas started = canvas_800x600" and d: "draws started = []"
    by (simp_all add: started_eq)
  have "draws (render collapsed_frame started)
      = draws started @ [last (draws (render collapsed_frame started))]"
    using render_draws [of collapsed_frame started] by blast
  then have "length (draws (render collapsed_frame started)) = 1"
    unfolding d by (metis append_Nil length_Cons list.size(3) One_nat_def)
  then show ?thesis
    using render_draws [of collapsed_frame started] render_canvas [of collapsed_frame started]
    by (simp add: c d resize_collapsed)
qed

end
